theory Spec2Isabelle
  imports Complex_Main "HOL-Library.AList"
begin

unbundle bit_operations_syntax

section \<open>Python values and errors\<close>

text \<open>
  Every exception the modelled code can raise is a constructor of \<open>error\<close>. The first three
  are the library's own classes (\<open>pycvoa.control\<close>: domain/value errors, definition errors,
  solution errors); the others are Python built-ins.
\<close>

datatype error =
    DomainError | DefinitionError | SolutionError
  | ValueError | TypeError | AttributeError | IndexError | KeyError
  | AssertionError | UnboundLocalError

text \<open>
  \<open>BasicValue\<close> is the source's alias for \<open>int | float | str\<close>. Floats are only ever
  compared (bounds, equality), never computed with, and are read as reals.
\<close>

datatype BasicValue = IntV int | RealV real | StrV string

text \<open>
  A Python \<open>dict\<close> keeps its keys in insertion order, and \<open>__eq__\<close> below depends on that
  order, so a dict is an association list: \<open>map_of\<close> reads a key, \<open>AList.update\<close> writes it
  (in place when the key exists, at the end otherwise).
\<close>

type_synonym LayerValue = "(string \<times> BasicValue) list"

datatype Component = Bas BasicValue | Lay LayerValue

datatype VarValue = Item Component | Vec "Component list"

type_synonym VarStructure = "(string \<times> VarValue) list"

section \<open>The domain\<close>

text \<open>
  Modelled from the spec: the class \<open>Domain\<close> (\<open>pycvoa/problem/domain.py\<close>) is not among the
  sources. Its data follows section 3 of the specification: \<open>Integer(min, max, step)\<close>,
  \<open>Real(min, max, step)\<close>, \<open>Categorical(labels)\<close>, \<open>Layer(elements)\<close> and
  \<open>Vector(min_size, max_size, step_size, component)\<close>, the component being absent until it
  has been set.
\<close>

datatype BasicDef =
    IntegerDef int int int
  | RealDef real real real
  | CategoricalDef "BasicValue list"

type_synonym LayerDef = "(string \<times> BasicDef) list"

datatype ComponentDef = BasicComponent BasicDef | LayerComponent LayerDef

datatype VarDef =
    BasicVar BasicDef
  | LayerVar LayerDef
  | VectorVar int int int "ComponentDef option"

type_synonym Domain = "(string \<times> VarDef) list"

datatype PYCVOA_TYPE = INTEGER | REAL | CATEGORICAL | LAYER | VECTOR

datatype PYCVOA_KIND = BASIC | NUMERICAL | Exactly PYCVOA_TYPE

fun basic_type :: "BasicDef \<Rightarrow> PYCVOA_TYPE" where
  "basic_type (IntegerDef lo hi st) = INTEGER"
| "basic_type (RealDef lo hi st) = REAL"
| "basic_type (CategoricalDef labels) = CATEGORICAL"

text \<open>
  Modelled from the spec: the scalar check of section 4.2. The value's primitive kind must
  match the declared variant; \<open>Integer\<close> and \<open>Real\<close> require \<open>min \<le> value \<le> max\<close> (the
  step is not enforced); \<open>Categorical\<close> requires membership in the labels.
\<close>

fun check_value :: "BasicDef \<Rightarrow> BasicValue \<Rightarrow> bool" where
  "check_value (IntegerDef lo hi st) (IntV n) = (lo \<le> n \<and> n \<le> hi)"
| "check_value (RealDef lo hi st) (RealV r) = (lo \<le> r \<and> r \<le> hi)"
| "check_value (CategoricalDef labels) v = (v \<in> set labels)"
| "check_value d v = False"

text \<open>
  Modelled from the spec: \<open>Domain.get_variable_type\<close>, a definition-level check of section
  4.2: a variable that is not declared raises a definition error.
\<close>

definition get_variable_type :: "Domain \<Rightarrow> string \<Rightarrow> error + PYCVOA_TYPE" where
  "get_variable_type d variable =
     (case map_of d variable of
        None \<Rightarrow> Inl DefinitionError
      | Some (BasicVar b) \<Rightarrow> Inr (basic_type b)
      | Some (LayerVar els) \<Rightarrow> Inr LAYER
      | Some (VectorVar mn mx st c) \<Rightarrow> Inr VECTOR)"

text \<open>
  Modelled from the spec: \<open>Domain.get_vector_components_type\<close>; the variable must be a
  declared vector whose component type has been set.
\<close>

definition get_vector_components_type :: "Domain \<Rightarrow> string \<Rightarrow> error + PYCVOA_TYPE" where
  "get_vector_components_type d variable =
     (case map_of d variable of
        Some (VectorVar mn mx st (Some (BasicComponent b))) \<Rightarrow> Inr (basic_type b)
      | Some (VectorVar mn mx st (Some (LayerComponent els))) \<Rightarrow> Inr LAYER
      | _ \<Rightarrow> Inl DefinitionError)"

text \<open>
  Modelled from the spec: \<open>pycvoa.control.common.check_item_type\<close>, the category match of
  section 4.2 (\<open>BASIC\<close> stands for the three scalar variants).
\<close>

fun check_item_type :: "PYCVOA_KIND \<Rightarrow> PYCVOA_TYPE \<Rightarrow> bool" where
  "check_item_type BASIC t = (t = INTEGER \<or> t = REAL \<or> t = CATEGORICAL)"
| "check_item_type NUMERICAL t = (t = INTEGER \<or> t = REAL)"
| "check_item_type (Exactly k) t = (t = k)"

text \<open>
  Modelled from the spec: the four value checks of section 4.2 (\<open>Domain.check_basic\<close>,
  \<open>check_element\<close>, \<open>check_vector_basic_value\<close>, \<open>check_vector_layer_element_value\<close>).
  Each resolves the definition first (a definition error when the variable or element is
  not declared under the expected category) and then applies the scalar check.
\<close>

definition check_basic :: "Domain \<Rightarrow> string \<Rightarrow> BasicValue \<Rightarrow> error + bool" where
  "check_basic d variable v =
     (case map_of d variable of
        Some (BasicVar b) \<Rightarrow> Inr (check_value b v)
      | _ \<Rightarrow> Inl DefinitionError)"

definition check_element :: "Domain \<Rightarrow> string \<Rightarrow> string \<Rightarrow> BasicValue \<Rightarrow> error + bool" where
  "check_element d variable element v =
     (case map_of d variable of
        Some (LayerVar els) \<Rightarrow>
          (case map_of els element of
             Some b \<Rightarrow> Inr (check_value b v)
           | None \<Rightarrow> Inl DefinitionError)
      | _ \<Rightarrow> Inl DefinitionError)"

definition check_vector_basic_value :: "Domain \<Rightarrow> string \<Rightarrow> BasicValue \<Rightarrow> error + bool" where
  "check_vector_basic_value d variable v =
     (case map_of d variable of
        Some (VectorVar mn mx st (Some (BasicComponent b))) \<Rightarrow> Inr (check_value b v)
      | _ \<Rightarrow> Inl DefinitionError)"

definition check_vector_layer_element_value ::
  "Domain \<Rightarrow> string \<Rightarrow> string \<Rightarrow> BasicValue \<Rightarrow> error + bool" where
  "check_vector_layer_element_value d variable element v =
     (case map_of d variable of
        Some (VectorVar mn mx st (Some (LayerComponent els))) \<Rightarrow>
          (case map_of els element of
             Some b \<Rightarrow> Inr (check_value b v)
           | None \<Rightarrow> Inl DefinitionError)
      | _ \<Rightarrow> Inl DefinitionError)"

text \<open>
  Modelled from the spec: the capacity queries of section 4.3. The remaining slots of a
  scalar or complete-shaped vector are \<open>max_size - current_length\<close>; the source calls this
  query under two names. For a layer vector the remaining capacity is reduced to zero
  while the last component has fewer elements set than the layer declares.
\<close>

definition get_remaining_available_complete_components :: "Domain \<Rightarrow> string \<Rightarrow> int \<Rightarrow> error + int" where
  "get_remaining_available_complete_components d variable current_size =
     (case map_of d variable of
        Some (VectorVar mn mx st c) \<Rightarrow> Inr (mx - current_size)
      | _ \<Rightarrow> Inl DefinitionError)"

definition get_remaining_available_basic_components :: "Domain \<Rightarrow> string \<Rightarrow> int \<Rightarrow> error + int" where
  "get_remaining_available_basic_components d variable current_size =
     (case map_of d variable of
        Some (VectorVar mn mx st c) \<Rightarrow> Inr (mx - current_size)
      | _ \<Rightarrow> Inl DefinitionError)"

definition get_remaining_available_layer_components ::
  "Domain \<Rightarrow> string \<Rightarrow> int \<Rightarrow> LayerValue \<Rightarrow> error + int" where
  "get_remaining_available_layer_components d variable current_size last_layer =
     (case map_of d variable of
        Some (VectorVar mn mx st (Some (LayerComponent els))) \<Rightarrow>
          Inr (if length last_layer < length els then 0 else mx - current_size)
      | _ \<Rightarrow> Inl DefinitionError)"

section \<open>Domain control (\<open>pycvoa/control/domain.py\<close>)\<close>

definition get_valid_domain :: "Domain option \<Rightarrow> Domain option \<Rightarrow> error + Domain" where
  "get_valid_domain external_domain internal_domain =
     (let current_domain =
            (case external_domain of None \<Rightarrow> internal_domain | Some d \<Rightarrow> Some d)
      in case current_domain of
           None \<Rightarrow> Inl DomainError
         | Some d \<Rightarrow> Inr d)"


definition check_basic_value ::
  "string \<Rightarrow> BasicValue \<Rightarrow> Domain option \<Rightarrow> Domain option \<Rightarrow> error + unit" where
  "check_basic_value check_basic_variable v external_domain internal_domain =
     (case get_valid_domain external_domain internal_domain of
        Inl e \<Rightarrow> Inl e
      | Inr valid_domain \<Rightarrow>
          (case check_basic valid_domain check_basic_variable v of
             Inl e \<Rightarrow> Inl e
           | Inr ok \<Rightarrow> if ok then Inr () else Inl DomainError))"

definition check_layer_element_value ::
  "string \<Rightarrow> string \<Rightarrow> BasicValue \<Rightarrow> Domain option \<Rightarrow> Domain option \<Rightarrow> error + unit" where
  "check_layer_element_value layer_variable element v external_domain internal_domain =
     (case get_valid_domain external_domain internal_domain of
        Inl e \<Rightarrow> Inl e
      | Inr valid_domain \<Rightarrow>
          (case check_element valid_domain layer_variable element v of
             Inl e \<Rightarrow> Inl e
           | Inr ok \<Rightarrow> if ok then Inr () else Inl DomainError))"

definition check_basic_vector_value ::
  "string \<Rightarrow> BasicValue \<Rightarrow> Domain option \<Rightarrow> Domain option \<Rightarrow> error + Domain" where
  "check_basic_vector_value check_basic_vector_variable v external_domain internal_domain =
     (case get_valid_domain external_domain internal_domain of
        Inl e \<Rightarrow> Inl e
      | Inr valid_domain \<Rightarrow>
          (case check_vector_basic_value valid_domain check_basic_vector_variable v of
             Inl e \<Rightarrow> Inl e
           | Inr ok \<Rightarrow> if ok then Inr valid_domain else Inl DomainError))"

text \<open>\<open>check_layer_vector_element\<close> raises the built-in \<open>ValueError\<close>, not \<open>DomainError\<close>.\<close>

definition check_layer_vector_element ::
  "string \<Rightarrow> string \<Rightarrow> BasicValue \<Rightarrow> Domain option \<Rightarrow> Domain option \<Rightarrow> error + Domain" where
  "check_layer_vector_element layer_vector_variable element v external_domain internal_domain =
     (case get_valid_domain external_domain internal_domain of
        Inl e \<Rightarrow> Inl e
      | Inr valid_domain \<Rightarrow>
          (case check_vector_layer_element_value valid_domain layer_vector_variable element v of
             Inl e \<Rightarrow> Inl e
           | Inr ok \<Rightarrow> if ok then Inr valid_domain else Inl ValueError))"

text \<open>The loop of \<open>check_layer_vector_component\<close> over \<open>layer_values.items()\<close>.\<close>

fun check_layer_items :: "Domain \<Rightarrow> string \<Rightarrow> LayerValue \<Rightarrow> error + unit" where
  "check_layer_items valid_domain layer_vector_variable [] = Inr ()"
| "check_layer_items valid_domain layer_vector_variable ((element, v) # rest) =
     (case check_vector_layer_element_value valid_domain layer_vector_variable element v of
        Inl e \<Rightarrow> Inl e
      | Inr ok \<Rightarrow>
          if ok then check_layer_items valid_domain layer_vector_variable rest
          else Inl DomainError)"

definition check_layer_vector_component ::
  "string \<Rightarrow> LayerValue \<Rightarrow> Domain option \<Rightarrow> Domain option \<Rightarrow> error + Domain" where
  "check_layer_vector_component layer_vector_variable layer_values external_domain internal_domain =
     (case get_valid_domain external_domain internal_domain of
        Inl e \<Rightarrow> Inl e
      | Inr valid_domain \<Rightarrow>
          (case check_layer_items valid_domain layer_vector_variable layer_values of
             Inl e \<Rightarrow> Inl e
           | Inr u \<Rightarrow> Inr valid_domain))"

definition basic_variable :: "string \<Rightarrow> Domain option \<Rightarrow> Domain option \<Rightarrow> error + Domain" where
  "basic_variable check_basic_variable external_domain internal_domain =
     (case get_valid_domain external_domain internal_domain of
        Inl e \<Rightarrow> Inl e
      | Inr valid_domain \<Rightarrow>
          (case get_variable_type valid_domain check_basic_variable of
             Inl e \<Rightarrow> Inl e
           | Inr t \<Rightarrow>
               if check_item_type BASIC t then Inr valid_domain else Inl DefinitionError))"

text \<open>\<open>__check_component_type\<close> raises the built-in \<open>ValueError\<close> on a mismatch.\<close>

definition check_component_type :: "string \<Rightarrow> PYCVOA_KIND \<Rightarrow> Domain \<Rightarrow> error + unit" where
  "check_component_type check_vector_variable check_type d =
     (case get_vector_components_type d check_vector_variable of
        Inl e \<Rightarrow> Inl e
      | Inr comp_type \<Rightarrow>
          if check_item_type check_type comp_type then Inr () else Inl ValueError)"

definition basic_vector_variable :: "string \<Rightarrow> Domain option \<Rightarrow> Domain option \<Rightarrow> error + Domain" where
  "basic_vector_variable check_vector_variable external_domain internal_domain =
     (case get_valid_domain external_domain internal_domain of
        Inl e \<Rightarrow> Inl e
      | Inr valid_domain \<Rightarrow>
          (case check_component_type check_vector_variable BASIC valid_domain of
             Inl e \<Rightarrow> Inl e
           | Inr u \<Rightarrow> Inr valid_domain))"

section \<open>Python list and dict primitives on stored values\<close>

text \<open>
  The store is dynamically typed: an operation reads whatever value sits under the name and
  applies \<open>len\<close>, \<open>append\<close>, indexing and so on to it. Each primitive below returns the
  built-in exception Python raises when the stored value has another shape. One case cannot
  be represented: \<open>d[index] = value\<close> on a stored dict would add an integer key, and layer
  keys are strings here; \<open>py_setitem\<close> reports \<open>TypeError\<close> there, and every statement
  about setting a component is made for a stored list.
\<close>

definition py_index :: "nat \<Rightarrow> int \<Rightarrow> nat option" where
  "py_index n i =
     (let j = (if i < 0 then int n + i else i)
      in if 0 \<le> j \<and> j < int n then Some (nat j) else None)"

fun py_len :: "VarValue \<Rightarrow> error + int" where
  "py_len (Vec xs) = Inr (int (length xs))"
| "py_len (Item (Lay l)) = Inr (int (length l))"
| "py_len (Item (Bas (StrV s))) = Inr (int (length s))"
| "py_len (Item (Bas v)) = Inl TypeError"

fun py_append :: "VarValue \<Rightarrow> Component \<Rightarrow> error + VarValue" where
  "py_append (Vec xs) c = Inr (Vec (xs @ [c]))"
| "py_append (Item i) c = Inl AttributeError"

text \<open>\<open>list.insert\<close> never raises: the index is clamped to the list.\<close>

definition insert_position :: "nat \<Rightarrow> int \<Rightarrow> int" where
  "insert_position n i = (if i < 0 then max 0 (int n + i) else min i (int n))"

definition list_insert :: "'a list \<Rightarrow> int \<Rightarrow> 'a \<Rightarrow> 'a list" where
  "list_insert xs i c =
     (let j = nat (insert_position (length xs) i)
      in take j xs @ [c] @ drop j xs)"

fun py_insert :: "VarValue \<Rightarrow> int \<Rightarrow> Component \<Rightarrow> error + VarValue" where
  "py_insert (Vec xs) i c = Inr (Vec (list_insert xs i c))"
| "py_insert (Item it) i c = Inl AttributeError"

fun py_getitem :: "VarValue \<Rightarrow> int \<Rightarrow> error + Component" where
  "py_getitem (Vec xs) i =
     (case py_index (length xs) i of None \<Rightarrow> Inl IndexError | Some j \<Rightarrow> Inr (xs ! j))"
| "py_getitem (Item (Lay l)) i = Inl KeyError"
| "py_getitem (Item (Bas (StrV s))) i =
     (case py_index (length s) i of
        None \<Rightarrow> Inl IndexError
      | Some j \<Rightarrow> Inr (Bas (StrV [s ! j])))"
| "py_getitem (Item (Bas v)) i = Inl TypeError"

fun py_setitem :: "VarValue \<Rightarrow> int \<Rightarrow> Component \<Rightarrow> error + VarValue" where
  "py_setitem (Vec xs) i c =
     (case py_index (length xs) i of
        None \<Rightarrow> Inl IndexError
      | Some j \<Rightarrow> Inr (Vec (xs[j := c])))"
| "py_setitem (Item it) i c = Inl TypeError"

fun py_pop :: "VarValue \<Rightarrow> error + VarValue" where
  "py_pop (Vec xs) = (if xs = [] then Inl IndexError else Inr (Vec (butlast xs)))"
| "py_pop (Item (Lay l)) = Inl TypeError"
| "py_pop (Item (Bas v)) = Inl AttributeError"

fun py_delitem :: "VarValue \<Rightarrow> int \<Rightarrow> error + VarValue" where
  "py_delitem (Vec xs) i =
     (case py_index (length xs) i of
        None \<Rightarrow> Inl IndexError
      | Some j \<Rightarrow> Inr (Vec (take j xs @ drop (Suc j) xs)))"
| "py_delitem (Item (Lay l)) i = Inl KeyError"
| "py_delitem (Item (Bas v)) i = Inl TypeError"

text \<open>\<open>c.keys()\<close> exists on a dict only.\<close>

fun py_keys :: "Component \<Rightarrow> error + string list" where
  "py_keys (Lay l) = Inr (map fst l)"
| "py_keys (Bas v) = Inl AttributeError"

text \<open>\<open>x[index][element] = value\<close>: the component is read, then written as a dict.\<close>

fun py_setitem_element :: "VarValue \<Rightarrow> int \<Rightarrow> string \<Rightarrow> BasicValue \<Rightarrow> error + VarValue" where
  "py_setitem_element (Vec xs) i element v =
     (case py_index (length xs) i of
        None \<Rightarrow> Inl IndexError
      | Some j \<Rightarrow>
          (case xs ! j of
             Lay l \<Rightarrow> Inr (Vec (xs[j := Lay (AList.update element v l)]))
           | Bas b \<Rightarrow> Inl TypeError))"
| "py_setitem_element (Item (Lay l)) i element v = Inl KeyError"
| "py_setitem_element (Item (Bas (StrV s))) i element v =
     (case py_index (length s) i of None \<Rightarrow> Inl IndexError | Some j \<Rightarrow> Inl TypeError)"
| "py_setitem_element (Item (Bas b)) i element v = Inl TypeError"

section \<open>Solution control (\<open>pycvoa/problem/ctrl/solution.py\<close>)\<close>

definition is_assigned_variable :: "string \<Rightarrow> VarStructure \<Rightarrow> error + unit" where
  "is_assigned_variable variable solution_structure =
     (case map_of solution_structure variable of
        None \<Rightarrow> Inl SolutionError
      | Some x \<Rightarrow> Inr ())"

text \<open>\<open>solution_structure.get\<close> of a missing name is \<open>None\<close>, and \<open>len(None)\<close> raises.\<close>

definition is_assigned_component :: "string \<Rightarrow> int \<Rightarrow> VarStructure \<Rightarrow> error + unit" where
  "is_assigned_component vector_variable index solution_structure =
     (case map_of solution_structure vector_variable of
        None \<Rightarrow> Inl TypeError
      | Some x \<Rightarrow>
          (case py_len x of
             Inl e \<Rightarrow> Inl e
           | Inr n \<Rightarrow> if index < 0 \<or> index \<ge> n then Inl SolutionError else Inr ()))"

definition is_assigned_layer_element :: "string \<Rightarrow> string \<Rightarrow> VarStructure \<Rightarrow> error + unit" where
  "is_assigned_layer_element layer_variable element solution_structure =
     (case map_of solution_structure layer_variable of
        None \<Rightarrow> Inl SolutionError
      | Some (Item c) \<Rightarrow>
          (case py_keys c of
             Inl e \<Rightarrow> Inl e
           | Inr ks \<Rightarrow> if element \<in> set ks then Inr () else Inl SolutionError)
      | Some (Vec xs) \<Rightarrow> Inl AttributeError)"

definition vector_insertion_available :: "string \<Rightarrow> Domain \<Rightarrow> VarStructure \<Rightarrow> error + unit" where
  "vector_insertion_available vector_variable d solution_structure =
     (case (case map_of solution_structure vector_variable of
              None \<Rightarrow> Inr 0
            | Some x \<Rightarrow> py_len x) of
        Inl e \<Rightarrow> Inl e
      | Inr vector_size \<Rightarrow>
          (case get_remaining_available_basic_components d vector_variable vector_size of
             Inl e \<Rightarrow> Inl e
           | Inr r \<Rightarrow> if r = 0 then Inl SolutionError else Inr ()))"

definition vector_adding_available :: "string \<Rightarrow> int \<Rightarrow> error + unit" where
  "vector_adding_available vector_variable remaining =
     (if remaining = 0 then Inl SolutionError else Inr ())"

definition vector_element_adding_available :: "string \<Rightarrow> VarStructure \<Rightarrow> Domain \<Rightarrow> error + unit" where
  "vector_element_adding_available layer_vector_variable solution_structure d = Inr ()"

definition assigned_vector_removal_available :: "string \<Rightarrow> VarStructure \<Rightarrow> Domain \<Rightarrow> error + unit" where
  "assigned_vector_removal_available vector_variable solution_structure d =
     (case map_of solution_structure vector_variable of
        None \<Rightarrow> Inl SolutionError
      | Some x \<Rightarrow>
          (case py_len x of
             Inl e \<Rightarrow> Inl e
           | Inr n \<Rightarrow>
               (case get_remaining_available_basic_components d vector_variable n of
                  Inl e \<Rightarrow> Inl e
                | Inr r \<Rightarrow> if r < 0 then Inl SolutionError else Inr ())))"

section \<open>The class \<open>Solution\<close> (\<open>pycvoa/problem/solution.py\<close>)\<close>

record Solution =
  domain :: "Domain option"
  variables :: VarStructure
  discovery_iteration :: int
  fitness :: real

definition float_info_max :: real where
  "float_info_max = (2 - 1 / 2 ^ 52) * 2 ^ 1023"

definition Solution_init :: "bool \<Rightarrow> Domain option \<Rightarrow> Solution" where
  "Solution_init best d =
     \<lparr>domain = d, variables = [], discovery_iteration = 0,
      fitness = (if best then 0 else float_info_max)\<rparr>"

text \<open>
  A method returns its outcome (the exception raised, or the value returned) together with
  the object as the call leaves it, so that a write followed by an exception is visible.
  \<open>checked m s k\<close> is a statement that may raise before anything has been written since
  the state \<open>s\<close>: the exception leaves \<open>s\<close>, otherwise the method goes on with \<open>k\<close>.
\<close>

definition checked :: "error + 'a \<Rightarrow> 's \<Rightarrow> ('a \<Rightarrow> (error + 'b) \<times> 's) \<Rightarrow> (error + 'b) \<times> 's" where
  "checked m s k = (case m of Inl e \<Rightarrow> (Inl e, s) | Inr a \<Rightarrow> k a)"

definition set_basic ::
  "Solution \<Rightarrow> string \<Rightarrow> BasicValue \<Rightarrow> Domain option \<Rightarrow> (error + unit) \<times> Solution" where
  "set_basic self basic_var v ext =
     checked (check_basic_value basic_var v ext (domain self)) self (\<lambda>u.
       (Inr (), self\<lparr>variables := AList.update basic_var (Item (Bas v)) (variables self)\<rparr>))"

definition set_element ::
  "Solution \<Rightarrow> string \<Rightarrow> string \<Rightarrow> BasicValue \<Rightarrow> Domain option \<Rightarrow> (error + unit) \<times> Solution" where
  "set_element self layer_variable element v ext =
     checked (check_layer_element_value layer_variable element v ext (domain self)) self (\<lambda>u.
       case map_of (variables self) layer_variable of
         None \<Rightarrow>
           (Inr (), self\<lparr>variables :=
              AList.update layer_variable (Item (Lay [(element, v)])) (variables self)\<rparr>)
       | Some (Item (Lay layer_value)) \<Rightarrow>
           (Inr (), self\<lparr>variables :=
              AList.update layer_variable (Item (Lay (AList.update element v layer_value)))
                (variables self)\<rparr>)
       | Some other \<Rightarrow> (Inl AssertionError, self))"

text \<open>The static method \<open>__put_basic\<close>; \<open>index\<close> is \<open>None\<close> for an append.\<close>

definition put_basic ::
  "VarStructure \<Rightarrow> string \<Rightarrow> BasicValue \<Rightarrow> Domain option \<Rightarrow> Domain option \<Rightarrow> int option
     \<Rightarrow> (error + int) \<times> VarStructure" where
  "put_basic vars basic_vector_var v external_domain internal_domain index =
     checked (check_basic_vector_value basic_vector_var v external_domain internal_domain)
       vars (\<lambda>valid_domain.
       case map_of vars basic_vector_var of
         None \<Rightarrow>
           (get_remaining_available_complete_components valid_domain basic_vector_var 1,
            AList.update basic_vector_var (Vec [Bas v]) vars)
       | Some x \<Rightarrow>
           checked (vector_insertion_available basic_vector_var valid_domain vars) vars (\<lambda>u.
           checked (py_len x) vars (\<lambda>n.
           checked (get_remaining_available_complete_components valid_domain
                      basic_vector_var n) vars (\<lambda>r.
           checked (vector_adding_available basic_vector_var r) vars (\<lambda>u.
           checked (case index of
                      None \<Rightarrow> py_append x (Bas v)
                    | Some i \<Rightarrow> py_insert x i (Bas v)) vars (\<lambda>x'.
             (Inr (r - 1), AList.update basic_vector_var x' vars)))))))"

definition add_basic_component ::
  "Solution \<Rightarrow> string \<Rightarrow> BasicValue \<Rightarrow> Domain option \<Rightarrow> (error + int) \<times> Solution" where
  "add_basic_component self basic_vector_var v ext =
     (case put_basic (variables self) basic_vector_var v ext (domain self) None of
        (r, vars) \<Rightarrow> (r, self\<lparr>variables := vars\<rparr>))"

definition insert_basic_component ::
  "Solution \<Rightarrow> string \<Rightarrow> int \<Rightarrow> BasicValue \<Rightarrow> Domain option \<Rightarrow> (error + int) \<times> Solution" where
  "insert_basic_component self basic_vector_var index v ext =
     (case put_basic (variables self) basic_vector_var v ext (domain self) (Some index) of
        (r, vars) \<Rightarrow> (r, self\<lparr>variables := vars\<rparr>))"

definition set_basic_component ::
  "Solution \<Rightarrow> string \<Rightarrow> int \<Rightarrow> BasicValue \<Rightarrow> Domain option \<Rightarrow> (error + unit) \<times> Solution" where
  "set_basic_component self basic_vector_var index v ext =
     checked (check_basic_vector_value basic_vector_var v ext (domain self)) self (\<lambda>d.
       case map_of (variables self) basic_vector_var of
         None \<Rightarrow>
           (Inr (), self\<lparr>variables :=
              AList.update basic_vector_var (Vec [Bas v]) (variables self)\<rparr>)
       | Some x \<Rightarrow>
           checked (is_assigned_component basic_vector_var index (variables self)) self (\<lambda>u.
           checked (py_setitem x index (Bas v)) self (\<lambda>x'.
             (Inr (), self\<lparr>variables :=
                AList.update basic_vector_var x' (variables self)\<rparr>))))"

text \<open>The static method \<open>__put_layer\<close>.\<close>

definition put_layer ::
  "VarStructure \<Rightarrow> string \<Rightarrow> LayerValue \<Rightarrow> Domain option \<Rightarrow> Domain option \<Rightarrow> int option
     \<Rightarrow> (error + int) \<times> VarStructure" where
  "put_layer vars layer_vector_variable layer_values external_domain internal_domain index =
     checked (check_layer_vector_component layer_vector_variable layer_values
                external_domain internal_domain) vars (\<lambda>current_domain.
       case map_of vars layer_vector_variable of
         None \<Rightarrow>
           (get_remaining_available_complete_components current_domain layer_vector_variable 1,
            AList.update layer_vector_variable (Vec [Lay layer_values]) vars)
       | Some x \<Rightarrow>
           checked (py_len x) vars (\<lambda>n.
           checked (get_remaining_available_complete_components current_domain
                      layer_vector_variable n) vars (\<lambda>r.
           checked (vector_adding_available layer_vector_variable r) vars (\<lambda>u.
           checked (case index of
                      None \<Rightarrow> py_append x (Lay layer_values)
                    | Some i \<Rightarrow> py_insert x i (Lay layer_values)) vars (\<lambda>x'.
             (Inr (r - 1), AList.update layer_vector_variable x' vars))))))"

definition add_layer_component ::
  "Solution \<Rightarrow> string \<Rightarrow> LayerValue \<Rightarrow> Domain option \<Rightarrow> (error + int) \<times> Solution" where
  "add_layer_component self layer_vector_variable layer_values ext =
     (case put_layer (variables self) layer_vector_variable layer_values ext (domain self) None of
        (r, vars) \<Rightarrow> (r, self\<lparr>variables := vars\<rparr>))"

definition insert_layer_component ::
  "Solution \<Rightarrow> string \<Rightarrow> int \<Rightarrow> LayerValue \<Rightarrow> Domain option \<Rightarrow> (error + int) \<times> Solution" where
  "insert_layer_component self layer_vector_variable index layer_values ext =
     (case put_layer (variables self) layer_vector_variable layer_values ext (domain self)
             (Some index) of
        (r, vars) \<Rightarrow> (r, self\<lparr>variables := vars\<rparr>))"

definition set_layer_component ::
  "Solution \<Rightarrow> string \<Rightarrow> int \<Rightarrow> LayerValue \<Rightarrow> Domain option \<Rightarrow> (error + unit) \<times> Solution" where
  "set_layer_component self layer_vector_variable index layer_values ext =
     checked (check_layer_vector_component layer_vector_variable layer_values ext (domain self))
       self (\<lambda>d.
       case map_of (variables self) layer_vector_variable of
         None \<Rightarrow>
           (Inr (), self\<lparr>variables :=
              AList.update layer_vector_variable (Vec [Lay layer_values]) (variables self)\<rparr>)
       | Some x \<Rightarrow>
           checked (is_assigned_component layer_vector_variable index (variables self)) self (\<lambda>u.
           checked (py_setitem x index (Lay layer_values)) self (\<lambda>x'.
             (Inr (), self\<lparr>variables :=
                AList.update layer_vector_variable x' (variables self)\<rparr>))))"

text \<open>
  The static method \<open>__put_element\<close>. When the vector is not in the store yet, the method
  writes the one-component list and then evaluates its \<open>return\<close> expression, which reads
  \<open>valid_index\<close>: a name bound in the other branch only, so Python raises
  \<open>UnboundLocalError\<close> after the write. In the other branch the \<open>return\<close> expression is
  evaluated on the store as written.
\<close>

definition put_element ::
  "VarStructure \<Rightarrow> string \<Rightarrow> string \<Rightarrow> BasicValue \<Rightarrow> Domain option \<Rightarrow> Domain option
     \<Rightarrow> int option \<Rightarrow> (error + int) \<times> VarStructure" where
  "put_element vars layer_vector_variable element v external_domain internal_domain index =
     checked (check_layer_vector_element layer_vector_variable element v
                external_domain internal_domain) vars (\<lambda>valid_domain.
       case map_of vars layer_vector_variable of
         None \<Rightarrow>
           (Inl UnboundLocalError,
            AList.update layer_vector_variable (Vec [Lay [(element, v)]]) vars)
       | Some x \<Rightarrow>
           checked (vector_element_adding_available layer_vector_variable vars valid_domain)
             vars (\<lambda>u.
           (let valid_index = (case index of None \<Rightarrow> - 1 | Some i \<Rightarrow> i) in
           checked (py_getitem x valid_index) vars (\<lambda>c.
           checked (py_keys c) vars (\<lambda>ks.
           checked (if element \<in> set ks
                    then (case index of
                            None \<Rightarrow> py_append x (Lay [(element, v)])
                          | Some i \<Rightarrow> py_insert x i (Lay [(element, v)]))
                    else py_setitem_element x valid_index element v) vars (\<lambda>x'.
             (let vars' = AList.update layer_vector_variable x' vars in
              checked (py_len x') vars' (\<lambda>n.
              checked (py_getitem x' valid_index) vars' (\<lambda>c'.
                case c' of
                  Lay l \<Rightarrow>
                    (get_remaining_available_layer_components valid_domain
                       layer_vector_variable n l, vars')
                | Bas b \<Rightarrow> (Inl TypeError, vars'))))))))))"

definition add_element_to_layer_component ::
  "Solution \<Rightarrow> string \<Rightarrow> string \<Rightarrow> BasicValue \<Rightarrow> Domain option \<Rightarrow> (error + int) \<times> Solution" where
  "add_element_to_layer_component self layer_vector_variable element v ext =
     (case put_element (variables self) layer_vector_variable element v ext (domain self) None of
        (r, vars) \<Rightarrow> (r, self\<lparr>variables := vars\<rparr>))"

definition insert_element_to_layer_component ::
  "Solution \<Rightarrow> string \<Rightarrow> int \<Rightarrow> string \<Rightarrow> BasicValue \<Rightarrow> Domain option
     \<Rightarrow> (error + int) \<times> Solution" where
  "insert_element_to_layer_component self layer_vector_variable index element v ext =
     (case put_element (variables self) layer_vector_variable element v ext (domain self)
             (Some index) of
        (r, vars) \<Rightarrow> (r, self\<lparr>variables := vars\<rparr>))"

definition set_element_of_layer_component ::
  "Solution \<Rightarrow> string \<Rightarrow> int \<Rightarrow> string \<Rightarrow> BasicValue \<Rightarrow> Domain option
     \<Rightarrow> (error + unit) \<times> Solution" where
  "set_element_of_layer_component self layer_vector_variable index element v ext =
     checked (check_layer_vector_element layer_vector_variable element v ext (domain self))
       self (\<lambda>d.
       case map_of (variables self) layer_vector_variable of
         None \<Rightarrow>
           (Inr (), self\<lparr>variables :=
              AList.update layer_vector_variable (Vec [Lay [(element, v)]]) (variables self)\<rparr>)
       | Some x \<Rightarrow>
           checked (is_assigned_component layer_vector_variable index (variables self)) self (\<lambda>u.
           checked (py_setitem_element x index element v) self (\<lambda>x'.
             (Inr (), self\<lparr>variables :=
                AList.update layer_vector_variable x' (variables self)\<rparr>))))"

definition remove_component ::
  "Solution \<Rightarrow> string \<Rightarrow> Domain option \<Rightarrow> (error + unit) \<times> Solution" where
  "remove_component self vector_variable ext =
     checked (get_valid_domain ext (domain self)) self (\<lambda>valid_domain.
     checked (is_assigned_variable vector_variable (variables self)) self (\<lambda>u.
     checked (assigned_vector_removal_available vector_variable (variables self) valid_domain)
       self (\<lambda>r.
       case map_of (variables self) vector_variable of
         None \<Rightarrow> (Inl KeyError, self)
       | Some x \<Rightarrow>
           checked (py_pop x) self (\<lambda>x'.
             (Inr r, self\<lparr>variables := AList.update vector_variable x' (variables self)\<rparr>)))))"

definition delete_component ::
  "Solution \<Rightarrow> string \<Rightarrow> int \<Rightarrow> Domain option \<Rightarrow> (error + unit) \<times> Solution" where
  "delete_component self vector_variable index ext =
     checked (get_valid_domain ext (domain self)) self (\<lambda>valid_domain.
     checked (is_assigned_variable vector_variable (variables self)) self (\<lambda>u.
     checked (assigned_vector_removal_available vector_variable (variables self) valid_domain)
       self (\<lambda>r.
     checked (is_assigned_component vector_variable index (variables self)) self (\<lambda>u.
       case map_of (variables self) vector_variable of
         None \<Rightarrow> (Inl KeyError, self)
       | Some x \<Rightarrow>
           checked (py_delitem x index) self (\<lambda>x'.
             (Inr r, self\<lparr>variables := AList.update vector_variable x' (variables self)\<rparr>))))))"

subsection \<open>Getters\<close>

text \<open>
  \<open>get_element_value\<close> calls \<open>layer_variable_element(layer_variable, self.__variables,
  domain, self.__domain)\<close>: the store is passed where the element name is expected, so the
  \<open>element\<close> parameter of the control function ranges over both kinds of object.
\<close>

datatype PyObj = PyStr string | PyDict VarStructure

text \<open>
  Modelled from the spec: \<open>Domain.is_defined_element\<close> of the query surface of section 4.1.
  An element name is looked up among the keys of the layer's elements; Python cannot look a
  dict up there (it is unhashable) and raises \<open>TypeError\<close>.
\<close>

definition is_defined_element :: "Domain \<Rightarrow> string \<Rightarrow> PyObj \<Rightarrow> error + bool" where
  "is_defined_element d variable element =
     (case element of
        PyDict vars \<Rightarrow> Inl TypeError
      | PyStr e \<Rightarrow>
          (case map_of d variable of
             Some (LayerVar els) \<Rightarrow> Inr (e \<in> set (map fst els))
           | _ \<Rightarrow> Inl DefinitionError))"

definition layer_variable_element ::
  "string \<Rightarrow> PyObj \<Rightarrow> Domain option \<Rightarrow> Domain option \<Rightarrow> error + Domain" where
  "layer_variable_element check_layer_variable element external_domain internal_domain =
     (case get_valid_domain external_domain internal_domain of
        Inl e \<Rightarrow> Inl e
      | Inr valid_domain \<Rightarrow>
          (case get_variable_type valid_domain check_layer_variable of
             Inl e \<Rightarrow> Inl e
           | Inr t \<Rightarrow>
               if check_item_type (Exactly LAYER) t then
                 (case is_defined_element valid_domain check_layer_variable element of
                    Inl e \<Rightarrow> Inl e
                  | Inr defined \<Rightarrow> if defined then Inr valid_domain else Inl DefinitionError)
               else Inl DefinitionError))"

text \<open>The getters return what \<open>dict.get\<close> returns, which is \<open>None\<close> for a missing key.\<close>

definition get_basic_value ::
  "Solution \<Rightarrow> string \<Rightarrow> Domain option \<Rightarrow> error + VarValue option" where
  "get_basic_value self basic_var ext =
     (case basic_variable basic_var ext (domain self) of
        Inl e \<Rightarrow> Inl e
      | Inr d \<Rightarrow>
          (case is_assigned_variable basic_var (variables self) of
             Inl e \<Rightarrow> Inl e
           | Inr u \<Rightarrow> Inr (map_of (variables self) basic_var)))"

definition get_element_value ::
  "Solution \<Rightarrow> string \<Rightarrow> string \<Rightarrow> Domain option \<Rightarrow> error + BasicValue option" where
  "get_element_value self layer_var element ext =
     (case layer_variable_element layer_var (PyDict (variables self)) ext (domain self) of
        Inl e \<Rightarrow> Inl e
      | Inr d \<Rightarrow>
          (case is_assigned_layer_element layer_var element (variables self) of
             Inl e \<Rightarrow> Inl e
           | Inr u \<Rightarrow>
               (case map_of (variables self) layer_var of
                  Some (Item (Lay l)) \<Rightarrow> Inr (map_of l element)
                | _ \<Rightarrow> Inl AttributeError)))"

definition get_basic_component_value ::
  "Solution \<Rightarrow> string \<Rightarrow> int \<Rightarrow> Domain option \<Rightarrow> error + Component" where
  "get_basic_component_value self basic_vector_var index ext =
     (case basic_vector_variable basic_vector_var ext (domain self) of
        Inl e \<Rightarrow> Inl e
      | Inr d \<Rightarrow>
          (case is_assigned_component basic_vector_var index (variables self) of
             Inl e \<Rightarrow> Inl e
           | Inr u \<Rightarrow>
               (case map_of (variables self) basic_vector_var of
                  None \<Rightarrow> Inl TypeError
                | Some x \<Rightarrow> py_getitem x index)))"

definition get_vector_length :: "Solution \<Rightarrow> string \<Rightarrow> nat" where
  "get_vector_length self vector_variable =
     (case map_of (variables self) vector_variable of
        Some (Vec xs) \<Rightarrow> length xs
      | _ \<Rightarrow> 0)"

subsection \<open>Equality\<close>

text \<open>
  The loop of \<open>__eq__\<close> is \<open>while i < len(keys) & res\<close>. In Python \<open>&\<close> binds tighter than
  \<open><\<close>, so the condition is \<open>i < (len(keys) & res)\<close>, the bitwise conjunction of the
  number of keys with the truth value read as 0 or 1. Both reads go through
  \<open>get_basic_value\<close> without a per-call domain and can raise.
\<close>

function eq_loop :: "Solution \<Rightarrow> Solution \<Rightarrow> string list \<Rightarrow> nat \<Rightarrow> bool \<Rightarrow> error + bool" where
  "eq_loop self other keys i res =
     (if int i < (int (length keys) AND (if res then 1 else 0)) then
        (case get_basic_value self (keys ! i) None of
           Inl e \<Rightarrow> Inl e
         | Inr vf \<Rightarrow>
             (case get_basic_value other (keys ! i) None of
                Inl e \<Rightarrow> Inl e
              | Inr vo \<Rightarrow>
                  eq_loop self other keys (i + 1) (if vf \<noteq> vo then False else res)))
      else Inr res)"
  by pat_completeness auto
termination
proof (relation "measure (\<lambda>(self, other, keys, i, res). length keys - i)")
  show "wf (measure (\<lambda>(self, other, keys, i, res). length keys - i))" by simp
next
  fix self other :: Solution and keys :: "string list" and i :: nat and res :: bool
    and vf vo :: "VarValue option"
  assume "int i < (int (length keys) AND (if res then 1 else 0))"
  moreover have "(int (length keys) AND (if res then 1 else 0)) \<le> int (length keys)"
    by (rule AND_upper1) simp
  ultimately have "i < length keys" by linarith
  then show "((self, other, keys, i + 1, if vf \<noteq> vo then False else res),
              self, other, keys, i, res)
       \<in> measure (\<lambda>(self, other, keys, i, res). length keys - i)" by simp
qed

datatype PyOperand = SolutionObj Solution | OtherObj

definition Solution_eq :: "Solution \<Rightarrow> PyOperand \<Rightarrow> error + bool" where
  "Solution_eq self operand =
     (case operand of
        OtherObj \<Rightarrow> Inr False
      | SolutionObj other \<Rightarrow> eq_loop self other (map fst (variables self)) 0 True)"

definition Solution_ne :: "Solution \<Rightarrow> PyOperand \<Rightarrow> error + bool" where
  "Solution_ne self operand =
     (case Solution_eq self operand of Inl e \<Rightarrow> Inl e | Inr b \<Rightarrow> Inr (\<not> b))"

section \<open>A small domain for concrete runs\<close>

text \<open>
  \<open>I\<close> and \<open>R\<close> are the scalars of the specification's scenario; \<open>L\<close> is a layer, \<open>V\<close> a
  vector of at most two integers, \<open>W\<close> a vector of at most three layers with the elements
  \<open>a\<close> and \<open>b\<close>, and \<open>Z\<close> a vector declared with \<open>max_size = 0\<close>.
\<close>

definition test_domain :: Domain where
  "test_domain =
     [(''I'', BasicVar (IntegerDef 0 100 1)),
      (''R'', BasicVar (RealDef 0 1 (1 / 10))),
      (''L'', LayerVar [(''E'', IntegerDef 0 100 1)]),
      (''V'', VectorVar 0 2 1 (Some (BasicComponent (IntegerDef 0 10 1)))),
      (''W'', VectorVar 0 3 1
         (Some (LayerComponent [(''a'', IntegerDef 0 10 1), (''b'', IntegerDef 0 10 1)]))),
      (''Z'', VectorVar 0 0 1 (Some (BasicComponent (IntegerDef 0 10 1))))]"

definition test_solution :: Solution where
  "test_solution = Solution_init False (Some test_domain)"

definition with_variables :: "VarStructure \<Rightarrow> Solution" where
  "with_variables vars = test_solution\<lparr>variables := vars\<rparr>"

text \<open>
  The caller of claim C1: the values are appended one after another, each outcome (the
  remaining capacity returned, or the exception raised and caught) is recorded, and the
  next call acts on the solution as the previous call left it.
\<close>

fun add_basic_components ::
  "Solution \<Rightarrow> string \<Rightarrow> BasicValue list \<Rightarrow> Domain option \<Rightarrow> (error + int) list \<times> Solution" where
  "add_basic_components self var [] ext = ([], self)"
| "add_basic_components self var (v # vs) ext =
     (case add_basic_component self var v ext of
        (r, self') \<Rightarrow>
          (case add_basic_components self' var vs ext of
             (rs, self'') \<Rightarrow> (r # rs, self'')))"

section \<open>Resolution of the active domain\<close>

lemma get_valid_domain_simps:
  "get_valid_domain (Some d) i = Inr d"
  "get_valid_domain None (Some d) = Inr d"
  "get_valid_domain None None = Inl DomainError"
  by (simp_all add: get_valid_domain_def)

lemmas control_defs =
  check_basic_value_def check_layer_element_value_def check_basic_vector_value_def
  check_layer_vector_element_def check_layer_vector_component_def basic_variable_def
  basic_vector_variable_def layer_variable_element_def


















section \<open>Concrete runs\<close>

lemmas fixture_defs = test_solution_def with_variables_def Solution_init_def test_domain_def

lemmas run_defs =
  fixture_defs checked_def control_defs get_valid_domain_simps
  check_basic_def check_element_def check_vector_basic_value_def
  check_vector_layer_element_value_def get_variable_type_def get_vector_components_type_def
  check_component_type_def get_remaining_available_complete_components_def
  get_remaining_available_basic_components_def get_remaining_available_layer_components_def
  is_defined_element_def is_assigned_variable_def is_assigned_component_def
  is_assigned_layer_element_def vector_insertion_available_def vector_adding_available_def
  vector_element_adding_available_def assigned_vector_removal_available_def
  py_index_def list_insert_def insert_position_def

section \<open>Frame: fitness and discovery iteration\<close>

lemma set_basic_frame:
  "fitness (snd (set_basic self var v ext)) = fitness self
   \<and> discovery_iteration (snd (set_basic self var v ext)) = discovery_iteration self"
  by (simp add: set_basic_def checked_def split: sum.splits)

lemma set_element_frame:
  "fitness (snd (set_element self var el v ext)) = fitness self
   \<and> discovery_iteration (snd (set_element self var el v ext)) = discovery_iteration self"
  by (simp add: set_element_def checked_def
        split: sum.splits option.splits VarValue.splits Component.splits)

lemma add_basic_component_frame:
  "fitness (snd (add_basic_component self var v ext)) = fitness self
   \<and> discovery_iteration (snd (add_basic_component self var v ext)) = discovery_iteration self"
  by (simp add: add_basic_component_def split: prod.splits)

lemma insert_basic_component_frame:
  "fitness (snd (insert_basic_component self var i v ext)) = fitness self
   \<and> discovery_iteration (snd (insert_basic_component self var i v ext))
       = discovery_iteration self"
  by (simp add: insert_basic_component_def split: prod.splits)

lemma set_basic_component_frame:
  "fitness (snd (set_basic_component self var i v ext)) = fitness self
   \<and> discovery_iteration (snd (set_basic_component self var i v ext))
       = discovery_iteration self"
  by (simp add: set_basic_component_def checked_def split: sum.splits option.splits)

lemma add_layer_component_frame:
  "fitness (snd (add_layer_component self var l ext)) = fitness self
   \<and> discovery_iteration (snd (add_layer_component self var l ext)) = discovery_iteration self"
  by (simp add: add_layer_component_def split: prod.splits)

lemma insert_layer_component_frame:
  "fitness (snd (insert_layer_component self var i l ext)) = fitness self
   \<and> discovery_iteration (snd (insert_layer_component self var i l ext))
       = discovery_iteration self"
  by (simp add: insert_layer_component_def split: prod.splits)

lemma set_layer_component_frame:
  "fitness (snd (set_layer_component self var i l ext)) = fitness self
   \<and> discovery_iteration (snd (set_layer_component self var i l ext))
       = discovery_iteration self"
  by (simp add: set_layer_component_def checked_def split: sum.splits option.splits)

lemma add_element_to_layer_component_frame:
  "fitness (snd (add_element_to_layer_component self var el v ext)) = fitness self
   \<and> discovery_iteration (snd (add_element_to_layer_component self var el v ext))
       = discovery_iteration self"
  by (simp add: add_element_to_layer_component_def split: prod.splits)

lemma insert_element_to_layer_component_frame:
  "fitness (snd (insert_element_to_layer_component self var i el v ext)) = fitness self
   \<and> discovery_iteration (snd (insert_element_to_layer_component self var i el v ext))
       = discovery_iteration self"
  by (simp add: insert_element_to_layer_component_def split: prod.splits)

lemma set_element_of_layer_component_frame:
  "fitness (snd (set_element_of_layer_component self var i el v ext)) = fitness self
   \<and> discovery_iteration (snd (set_element_of_layer_component self var i el v ext))
       = discovery_iteration self"
  by (simp add: set_element_of_layer_component_def checked_def
        split: sum.splits option.splits)

lemma remove_component_frame:
  "fitness (snd (remove_component self var ext)) = fitness self
   \<and> discovery_iteration (snd (remove_component self var ext)) = discovery_iteration self"
  by (simp add: remove_component_def checked_def split: sum.splits option.splits)

lemma delete_component_frame:
  "fitness (snd (delete_component self var i ext)) = fitness self
   \<and> discovery_iteration (snd (delete_component self var i ext)) = discovery_iteration self"
  by (simp add: delete_component_def checked_def split: sum.splits option.splits)

text \<open>
  Claim C10. Whatever its arguments and whether it returns or raises, each mutation of the
  value store (\<open>set_basic\<close>, \<open>set_element\<close>, the append, insert and set of a basic or layer
  component and of an element of a layer component, \<open>remove_component\<close>,
  \<open>delete_component\<close>) leaves the solution's \<open>fitness\<close> and \<open>discovery_iteration\<close> as they
  were.
\<close>

theorem C10_mutations_keep_fitness:
  "fitness (snd (set_basic self var v ext)) = fitness self
   \<and> discovery_iteration (snd (set_basic self var v ext)) = discovery_iteration self
   \<and> fitness (snd (set_element self var el v ext)) = fitness self
   \<and> discovery_iteration (snd (set_element self var el v ext)) = discovery_iteration self
   \<and> fitness (snd (add_basic_component self var v ext)) = fitness self
   \<and> discovery_iteration (snd (add_basic_component self var v ext)) = discovery_iteration self
   \<and> fitness (snd (insert_basic_component self var i v ext)) = fitness self
   \<and> discovery_iteration (snd (insert_basic_component self var i v ext))
       = discovery_iteration self
   \<and> fitness (snd (set_basic_component self var i v ext)) = fitness self
   \<and> discovery_iteration (snd (set_basic_component self var i v ext))
       = discovery_iteration self
   \<and> fitness (snd (add_layer_component self var l ext)) = fitness self
   \<and> discovery_iteration (snd (add_layer_component self var l ext)) = discovery_iteration self
   \<and> fitness (snd (insert_layer_component self var i l ext)) = fitness self
   \<and> discovery_iteration (snd (insert_layer_component self var i l ext))
       = discovery_iteration self
   \<and> fitness (snd (set_layer_component self var i l ext)) = fitness self
   \<and> discovery_iteration (snd (set_layer_component self var i l ext))
       = discovery_iteration self
   \<and> fitness (snd (add_element_to_layer_component self var el v ext)) = fitness self
   \<and> discovery_iteration (snd (add_element_to_layer_component self var el v ext))
       = discovery_iteration self
   \<and> fitness (snd (insert_element_to_layer_component self var i el v ext)) = fitness self
   \<and> discovery_iteration (snd (insert_element_to_layer_component self var i el v ext))
       = discovery_iteration self
   \<and> fitness (snd (set_element_of_layer_component self var i el v ext)) = fitness self
   \<and> discovery_iteration (snd (set_element_of_layer_component self var i el v ext))
       = discovery_iteration self
   \<and> fitness (snd (remove_component self var ext)) = fitness self
   \<and> discovery_iteration (snd (remove_component self var ext)) = discovery_iteration self
   \<and> fitness (snd (delete_component self var i ext)) = fitness self
   \<and> discovery_iteration (snd (delete_component self var i ext)) = discovery_iteration self"
  using set_basic_frame [of self var v ext] set_element_frame [of self var el v ext]
    add_basic_component_frame [of self var v ext]
    insert_basic_component_frame [of self var i v ext]
    set_basic_component_frame [of self var i v ext]
    add_layer_component_frame [of self var l ext]
    insert_layer_component_frame [of self var i l ext]
    set_layer_component_frame [of self var i l ext]
    add_element_to_layer_component_frame [of self var el v ext]
    insert_element_to_layer_component_frame [of self var i el v ext]
    set_element_of_layer_component_frame [of self var i el v ext]
    remove_component_frame [of self var ext]
    delete_component_frame [of self var i ext]
  by blast

text \<open>
  A run of C10: a solution whose fitness the caller has set to 7 keeps it through an
  accepted \<open>set_basic\<close> and through a rejected one.
\<close>

theorem C10_mutations_keep_fitness_witness:
  "fitness (snd (set_basic (test_solution\<lparr>fitness := 7\<rparr>) ''I'' (IntV 50) None)) = 7
   \<and> fitness (snd (set_basic (test_solution\<lparr>fitness := 7\<rparr>) ''I'' (IntV 150) None)) = 7"
  using C10_mutations_keep_fitness [of "test_solution\<lparr>fitness := 7\<rparr>" "''I''" "IntV 50" None]
    C10_mutations_keep_fitness [of "test_solution\<lparr>fitness := 7\<rparr>" "''I''" "IntV 150" None]
  by simp

section \<open>Reading a variable that has no value\<close>

text \<open>
  Claim C5. With a domain resolved, \<open>get_basic_value\<close> raises a definition error for a
  variable the domain does not declare, and a solution error for a variable the domain
  declares as a scalar and the solution has not assigned; the two are different errors.
\<close>

theorem C5_unassigned_versus_undeclared:
  assumes "get_valid_domain ext (domain self) = Inr d"
  shows "(map_of d var = None \<longrightarrow> get_basic_value self var ext = Inl DefinitionError)
    \<and> (map_of d var = Some (BasicVar b) \<longrightarrow> map_of (variables self) var = None
         \<longrightarrow> get_basic_value self var ext = Inl SolutionError)
    \<and> DefinitionError \<noteq> SolutionError"
  using assms
  by (cases b)
     (simp_all add: get_basic_value_def basic_variable_def get_variable_type_def
        is_assigned_variable_def)

theorem C5_unassigned_versus_undeclared_witness:
  "get_basic_value test_solution ''Q'' None = Inl DefinitionError
   \<and> get_basic_value test_solution ''I'' None = Inl SolutionError"
proof -
  have res: "get_valid_domain None (domain test_solution) = Inr test_domain"
    by (simp add: fixture_defs get_valid_domain_simps)
  have undeclared: "map_of test_domain ''Q'' = None"
    by (simp add: test_domain_def)
  have declared: "map_of test_domain ''I'' = Some (BasicVar (IntegerDef 0 100 1))"
    by (simp add: test_domain_def)
  have unassigned: "map_of (variables test_solution) ''I'' = None"
    by (simp add: fixture_defs)
  show ?thesis
    using C5_unassigned_versus_undeclared [OF res, of "''Q''"]
      C5_unassigned_versus_undeclared [OF res, of "''I''" "IntegerDef 0 100 1"]
      undeclared declared unassigned
    by blast
qed

section \<open>Runs on which the code departs from the specification\<close>

text \<open>
  Claim C4 (the code fails it). An element is appended to the layer vector \<open>W\<close> of a
  solution that has no value for \<open>W\<close>: the call raises \<open>UnboundLocalError\<close>, and the store,
  empty before, holds a one-component vector after. The write is not undone by the error.
\<close>

theorem C4_element_append_writes_then_raises:
  "variables test_solution = []
   \<and> add_element_to_layer_component test_solution ''W'' ''a'' (IntV 1) None
       = (Inl UnboundLocalError, with_variables [(''W'', Vec [Lay [(''a'', IntV 1)]])])"
  by (simp add: add_element_to_layer_component_def put_element_def run_defs)

text \<open>
  Claim C7 (the code fails it). One component is appended to \<open>V\<close> and removed again, which
  leaves \<open>V\<close> assigned and empty. A further \<open>remove_component\<close> passes the removal check
  (two slots remain, which is not negative) and fails in \<open>list.pop\<close> with the built-in
  \<open>IndexError\<close>; \<open>delete_component\<close> on the same solution raises the solution error.
\<close>

theorem C7_remove_from_empty_vector:
  "snd (remove_component (snd (add_basic_component test_solution ''V'' (IntV 1) None)) ''V'' None)
     = with_variables [(''V'', Vec [])]
   \<and> remove_component (with_variables [(''V'', Vec [])]) ''V'' None
       = (Inl IndexError, with_variables [(''V'', Vec [])])
   \<and> delete_component (with_variables [(''V'', Vec [])]) ''V'' 0 None
       = (Inl SolutionError, with_variables [(''V'', Vec [])])"
  by (simp add: remove_component_def delete_component_def add_basic_component_def
        put_basic_def run_defs)

text \<open>
  Claim C9 (the code fails it). Two solutions over the same domain assign \<open>I\<close> and \<open>R\<close>
  different values and compare equal, since with an even number of keys the loop of
  \<open>__eq__\<close> never runs. The empty solution equals a solution that assigns \<open>I\<close>, while the
  comparison the other way round raises a solution error.
\<close>

theorem C9_equality_ignores_values:
  "Solution_eq (with_variables [(''I'', Item (Bas (IntV 1))), (''R'', Item (Bas (RealV 0)))])
     (SolutionObj (with_variables [(''I'', Item (Bas (IntV 3))), (''R'', Item (Bas (RealV 1)))]))
     = Inr True
   \<and> Solution_eq (with_variables []) (SolutionObj (with_variables [(''I'', Item (Bas (IntV 3)))]))
       = Inr True
   \<and> Solution_eq (with_variables [(''I'', Item (Bas (IntV 3)))]) (SolutionObj (with_variables []))
       = Inl SolutionError"
  by (simp add: Solution_eq_def get_basic_value_def run_defs)

section \<open>Capacity of a scalar vector\<close>

lemma check_basic_vector_value_accepts:
  assumes "get_valid_domain ext i = Inr d"
    and "map_of d var = Some (VectorVar mn k st (Some (BasicComponent b)))"
    and "check_value b v"
  shows "check_basic_vector_value var v ext i = Inr d"
  using assms by (simp add: check_basic_vector_value_def check_vector_basic_value_def)

lemma add_basic_component_fresh:
  assumes "get_valid_domain ext (domain self) = Inr d"
    and "map_of d var = Some (VectorVar mn k st (Some (BasicComponent b)))"
    and "check_value b v"
    and "map_of (variables self) var = None"
  shows "add_basic_component self var v ext =
     (Inr (k - 1), self\<lparr>variables := AList.update var (Vec [Bas v]) (variables self)\<rparr>)"
  using assms(2,4) check_basic_vector_value_accepts [OF assms(1-3)]
  by (simp add: add_basic_component_def put_basic_def checked_def
       get_remaining_available_complete_components_def)

lemma add_basic_component_assigned:
  assumes "get_valid_domain ext (domain self) = Inr d"
    and "map_of d var = Some (VectorVar mn k st (Some (BasicComponent b)))"
    and "check_value b v"
    and "map_of (variables self) var = Some (Vec xs)"
  shows "add_basic_component self var v ext =
     (if int (length xs) = k then (Inl SolutionError, self)
      else (Inr (k - int (length xs) - 1),
            self\<lparr>variables := AList.update var (Vec (xs @ [Bas v])) (variables self)\<rparr>))"
  using assms(2,4) check_basic_vector_value_accepts [OF assms(1-3)]
  by (simp add: add_basic_component_def put_basic_def checked_def
       get_remaining_available_complete_components_def vector_insertion_available_def
       get_remaining_available_basic_components_def vector_adding_available_def)

text \<open>
  From a vector that holds \<open>xs\<close>, no longer than the maximum: the appends succeed until the
  vector is full and are rejected from then on.
\<close>

lemma add_basic_components_assigned:
  assumes "get_valid_domain ext (domain self) = Inr d"
    and "map_of d var = Some (VectorVar mn k st (Some (BasicComponent b)))"
    and "list_all (check_value b) vs"
    and "map_of (variables self) var = Some (Vec xs)"
    and "int (length xs) \<le> k"
  shows "fst (add_basic_components self var vs ext) =
           map (\<lambda>i. if int (length xs + i) < k then Inr (k - 1 - int (length xs + i))
                    else Inl SolutionError) [0..<length vs]
       \<and> map_of (variables (snd (add_basic_components self var vs ext))) var =
           Some (Vec (xs @ map Bas (take (nat k - length xs) vs)))"
  using assms
proof (induction vs arbitrary: self xs)
  case Nil
  then show ?case by simp
next
  case (Cons v vs)
  have v: "check_value b v" and vs: "list_all (check_value b) vs"
    using Cons.prems(3) by simp_all
  note step = add_basic_component_assigned [OF Cons.prems(1) Cons.prems(2) v Cons.prems(4)]
  show ?case
  proof (cases "int (length xs) = k")
    case True
    then have same: "add_basic_component self var v ext = (Inl SolutionError, self)"
      using step by simp
    have len: "nat k - length xs = 0" using True by simp
    from Cons.IH [OF Cons.prems(1) Cons.prems(2) vs Cons.prems(4) Cons.prems(5)] True
    show ?thesis
      by (simp add: same len map_upt_Suc case_prod_beta del: upt_Suc)
  next
    case False
    let ?self' = "self\<lparr>variables := AList.update var (Vec (xs @ [Bas v])) (variables self)\<rparr>"
    have nxt: "add_basic_component self var v ext = (Inr (k - int (length xs) - 1), ?self')"
      using step False by simp
    have d': "get_valid_domain ext (domain ?self') = Inr d" using Cons.prems(1) by simp
    have a': "map_of (variables ?self') var = Some (Vec (xs @ [Bas v]))"
      by (simp add: update_conv')
    have l': "int (length (xs @ [Bas v])) \<le> k" using False Cons.prems(5) by simp
    have lt: "length xs < nat k" using False Cons.prems(5) by linarith
    then have eq: "nat k - length xs = Suc (nat k - length (xs @ [Bas v]))" by simp
    have tk: "take (nat k - length xs) (v # vs) = v # take (nat k - length (xs @ [Bas v])) vs"
      by (simp only: eq take_Suc_Cons)
    from Cons.IH [OF d' Cons.prems(2) vs a' l'] False Cons.prems(5)
    show ?thesis
      by (simp add: nxt tk map_upt_Suc case_prod_beta algebra_simps del: upt_Suc)
  qed
qed

text \<open>
  Claim C1, as amended. Let the resolved domain declare \<open>var\<close> as a vector of scalars with
  \<open>max_size = k\<close> and \<open>k \<ge> 1\<close>, let the solution have no value for \<open>var\<close>, and let every
  value of \<open>vs\<close> satisfy the component's definition. When the values are appended in turn,
  the \<open>i\<close>-th append (counted from 0) returns the remaining capacity \<open>k - 1 - i\<close> while
  \<open>i < k\<close> and is rejected with a solution error from the \<open>k\<close>-th on; the vector then
  holds the first \<open>k\<close> values in order, and its length never exceeds \<open>k\<close>.
\<close>

theorem C1_append_capacity:
  assumes res: "get_valid_domain ext (domain self) = Inr d"
    and decl: "map_of d var = Some (VectorVar mn k st (Some (BasicComponent b)))"
    and k: "1 \<le> k"
    and valid: "list_all (check_value b) vs"
    and fresh: "map_of (variables self) var = None"
  shows "fst (add_basic_components self var vs ext) =
           map (\<lambda>i. if int i < k then Inr (k - 1 - int i) else Inl SolutionError)
             [0..<length vs]
       \<and> (vs \<noteq> [] \<longrightarrow>
            map_of (variables (snd (add_basic_components self var vs ext))) var =
              Some (Vec (map Bas (take (nat k) vs))))
       \<and> int (get_vector_length (snd (add_basic_components self var vs ext)) var) \<le> k"
proof (cases vs)
  case Nil
  then show ?thesis using fresh k by (simp add: get_vector_length_def)
next
  case (Cons v vs')
  have v: "check_value b v" and vs': "list_all (check_value b) vs'"
    using valid Cons by simp_all
  let ?self' = "self\<lparr>variables := AList.update var (Vec [Bas v]) (variables self)\<rparr>"
  have first: "add_basic_component self var v ext = (Inr (k - 1), ?self')"
    by (rule add_basic_component_fresh [OF res decl v fresh])
  have res': "get_valid_domain ext (domain ?self') = Inr d" using res by simp
  have a': "map_of (variables ?self') var = Some (Vec [Bas v])" by (simp add: update_conv')
  have l': "int (length [Bas v]) \<le> k" using k by simp
  note rest = add_basic_components_assigned [OF res' decl vs' a' l']
  have eq: "nat k = Suc (nat k - length [Bas v])" using k by simp
  have tk: "take (nat k) (v # vs') = v # take (nat k - length [Bas v]) vs'"
    by (subst eq) (simp only: take_Suc_Cons)
  have outcomes: "fst (add_basic_components self var vs ext) =
           map (\<lambda>i. if int i < k then Inr (k - 1 - int i) else Inl SolutionError)
             [0..<length vs]"
    using rest k
    by (simp add: Cons first map_upt_Suc case_prod_beta algebra_simps del: upt_Suc)
  have store: "map_of (variables (snd (add_basic_components self var vs ext))) var =
              Some (Vec (map Bas (take (nat k) vs)))"
    using rest by (simp add: Cons first tk case_prod_beta)
  have "length (take (nat k) vs) \<le> nat k" by simp
  then have len: "int (get_vector_length (snd (add_basic_components self var vs ext)) var) \<le> k"
    using k by (simp add: get_vector_length_def store del: length_take)
  show ?thesis using outcomes store len by blast
qed

text \<open>
  A run of C1: \<open>V\<close> has \<open>max_size = 2\<close>; of three appends the first two return 1 and 0,
  the third is rejected, and \<open>V\<close> holds the first two values.
\<close>

theorem C1_append_capacity_witness:
  "fst (add_basic_components test_solution ''V'' [IntV 1, IntV 2, IntV 3] None)
     = [Inr 1, Inr 0, Inl SolutionError]
   \<and> map_of (variables (snd (add_basic_components test_solution ''V''
                                  [IntV 1, IntV 2, IntV 3] None))) ''V''
     = Some (Vec [Bas (IntV 1), Bas (IntV 2)])"
proof -
  have res: "get_valid_domain None (domain test_solution) = Inr test_domain"
    by (simp add: fixture_defs get_valid_domain_simps)
  have decl: "map_of test_domain ''V''
      = Some (VectorVar 0 2 1 (Some (BasicComponent (IntegerDef 0 10 1))))"
    by (simp add: test_domain_def)
  have k: "(1::int) \<le> 2" by simp
  have valid: "list_all (check_value (IntegerDef 0 10 1)) [IntV 1, IntV 2, IntV 3]" by simp
  have fresh: "map_of (variables test_solution) ''V'' = None" by (simp add: fixture_defs)
  have up: "[0..<length [IntV 1, IntV 2, IntV 3]] = [0, 1, 2]" by (simp add: upt_rec)
  show ?thesis
    using C1_append_capacity [OF res decl k valid fresh] by (simp add: up)
qed

text \<open>
  Claim C1 as stated fails for \<open>k = 0\<close>: \<open>Z\<close> is declared with \<open>max_size = 0\<close>, yet the
  first append is accepted (the branch that creates the vector checks no capacity), the
  vector then has length 1, and the second append is accepted as well, the remaining
  capacity being \<open>-1\<close> and not \<open>0\<close>.
\<close>

theorem C1_zero_capacity_counterexample:
  "map_of test_domain ''Z'' = Some (VectorVar 0 0 1 (Some (BasicComponent (IntegerDef 0 10 1))))
   \<and> add_basic_component test_solution ''Z'' (IntV 1) None
       = (Inr (- 1), with_variables [(''Z'', Vec [Bas (IntV 1)])])
   \<and> add_basic_component (with_variables [(''Z'', Vec [Bas (IntV 1)])]) ''Z'' (IntV 2) None
       = (Inr (- 2), with_variables [(''Z'', Vec [Bas (IntV 1), Bas (IntV 2)])])"
  by (simp add: add_basic_component_def put_basic_def run_defs)

section \<open>Setting a component\<close>






section \<open>Appending an element to a layer vector\<close>

lemma py_index_last: "py_index (Suc n) (- 1) = Some n"
  by (simp add: py_index_def)

lemma py_index_nonneg: "0 \<le> i \<Longrightarrow> i < int n \<Longrightarrow> py_index n i = Some (nat i)"
  by (simp add: py_index_def)

lemma add_element_fresh:
  assumes "check_layer_vector_element var el v ext (domain self) = Inr d"
    and "map_of (variables self) var = None"
  shows "variables (snd (add_element_to_layer_component self var el v ext)) =
           AList.update var (Vec [Lay [(el, v)]]) (variables self)"
  using assms by (simp add: add_element_to_layer_component_def put_element_def checked_def)

lemma add_element_assigned:
  assumes ok: "check_layer_vector_element var el v ext (domain self) = Inr d"
    and a: "map_of (variables self) var = Some (Vec (xs @ [Lay l]))"
  shows "add_element_to_layer_component self var el v ext =
           (get_remaining_available_layer_components d var
              (int (length xs) + (if el \<in> fst ` set l then 2 else 1))
              (if el \<in> fst ` set l then [(el, v)] else AList.update el v l),
            self\<lparr>variables := AList.update var
              (Vec (if el \<in> fst ` set l then xs @ [Lay l, Lay [(el, v)]]
                    else xs @ [Lay (AList.update el v l)])) (variables self)\<rparr>)"
proof (cases "el \<in> fst ` set l")
  case True
  have g: "py_getitem (Vec (xs @ [Lay l, Lay [(el, v)]])) (- 1) = Inr (Lay [(el, v)])"
    using py_index_last [of "Suc (length xs)"] by (simp add: nth_append)
  show ?thesis using ok a True g
    by (simp add: add_element_to_layer_component_def put_element_def checked_def
        vector_element_adding_available_def py_index_last add.commute)
next
  case False
  show ?thesis using ok a False
    by (simp add: add_element_to_layer_component_def put_element_def checked_def
        vector_element_adding_available_def py_index_last add.commute)
qed

text \<open>
  Claim C2, as amended. Let the domain accept the value for the element. If the solution
  has no value for the layer vector, the element-level append leaves the store holding a
  single component with that element only. If the vector ends in the component \<open>l\<close>, the
  append creates a new component, holding that element only, exactly when the element is
  already set in \<open>l\<close>, and otherwise sets the element in \<open>l\<close> without changing the number
  of components; its outcome is the remaining capacity the domain reports for the vector
  as written.
\<close>

theorem C2_element_append:
  assumes "check_layer_vector_element var el v ext (domain self) = Inr d"
  shows "(map_of (variables self) var = None \<longrightarrow>
           variables (snd (add_element_to_layer_component self var el v ext)) =
             AList.update var (Vec [Lay [(el, v)]]) (variables self))
       \<and> (map_of (variables self) var = Some (Vec (xs @ [Lay l])) \<longrightarrow>
           add_element_to_layer_component self var el v ext =
             (get_remaining_available_layer_components d var
                (int (length xs) + (if el \<in> fst ` set l then 2 else 1))
                (if el \<in> fst ` set l then [(el, v)] else AList.update el v l),
              self\<lparr>variables := AList.update var
                (Vec (if el \<in> fst ` set l then xs @ [Lay l, Lay [(el, v)]]
                      else xs @ [Lay (AList.update el v l)])) (variables self)\<rparr>))"
  using add_element_fresh [OF assms] add_element_assigned [OF assms, of xs l]
  by blast

text \<open>
  The run of the specification on \<open>W\<close>, whose layer has the elements \<open>a\<close> and \<open>b\<close>:
  appending \<open>a\<close> to the solution without \<open>W\<close> leaves one component with \<open>a\<close> only;
  appending \<open>b\<close> fills that component; appending \<open>a\<close> again creates the second component.
\<close>

theorem C2_element_append_witness:
  "variables (snd (add_element_to_layer_component test_solution ''W'' ''a'' (IntV 1) None))
     = [(''W'', Vec [Lay [(''a'', IntV 1)]])]
   \<and> add_element_to_layer_component (with_variables [(''W'', Vec [Lay [(''a'', IntV 1)]])])
         ''W'' ''b'' (IntV 2) None
     = (Inr 2, with_variables [(''W'', Vec [Lay [(''a'', IntV 1), (''b'', IntV 2)]])])
   \<and> add_element_to_layer_component
         (with_variables [(''W'', Vec [Lay [(''a'', IntV 1), (''b'', IntV 2)]])])
         ''W'' ''a'' (IntV 3) None
     = (Inr 0, with_variables
          [(''W'', Vec [Lay [(''a'', IntV 1), (''b'', IntV 2)], Lay [(''a'', IntV 3)]])])"
proof -
  let ?s1 = "with_variables [(''W'', Vec [Lay [(''a'', IntV 1)]])]"
  let ?s2 = "with_variables [(''W'', Vec [Lay [(''a'', IntV 1), (''b'', IntV 2)]])]"
  have ok0: "check_layer_vector_element ''W'' ''a'' (IntV 1) None (domain test_solution)
      = Inr test_domain"
    by (simp add: fixture_defs check_layer_vector_element_def
          check_vector_layer_element_value_def get_valid_domain_simps)
  have ok1: "check_layer_vector_element ''W'' ''b'' (IntV 2) None (domain ?s1)
      = Inr test_domain"
    by (simp add: fixture_defs check_layer_vector_element_def
          check_vector_layer_element_value_def get_valid_domain_simps)
  have ok2: "check_layer_vector_element ''W'' ''a'' (IntV 3) None (domain ?s2)
      = Inr test_domain"
    by (simp add: fixture_defs check_layer_vector_element_def
          check_vector_layer_element_value_def get_valid_domain_simps)
  show ?thesis
    using C2_element_append [OF ok0]
      C2_element_append [OF ok1, where xs = "[]" and l = "[(''a'', IntV 1)]"]
      C2_element_append [OF ok2, where xs = "[]" and l = "[(''a'', IntV 1), (''b'', IntV 2)]"]
    by (simp add: fixture_defs get_remaining_available_layer_components_def)
qed

text \<open>
  Claim C2 as stated fails: with \<open>a\<close> set and \<open>b\<close> missing in the only component of \<open>W\<close>,
  appending \<open>a\<close> again creates a second component although the first is incomplete.
\<close>

theorem C2_incomplete_component_counterexample:
  "map_of [(''a'', IntV 1)] ''b'' = None
   \<and> add_element_to_layer_component (with_variables [(''W'', Vec [Lay [(''a'', IntV 1)]])])
         ''W'' ''a'' (IntV 2) None
     = (Inr 0, with_variables [(''W'', Vec [Lay [(''a'', IntV 1)], Lay [(''a'', IntV 2)]])])"
  by (simp add: add_element_to_layer_component_def put_element_def run_defs)

section \<open>Reading back what was written\<close>

lemma set_basic_round_trip:
  assumes "fst (set_basic self var v ext) = Inr ()"
  shows "get_basic_value (snd (set_basic self var v ext)) var ext = Inr (Some (Item (Bas v)))"
proof -
  from assms have ok: "check_basic_value var v ext (domain self) = Inr ()"
    by (auto simp add: set_basic_def checked_def split: sum.splits)
  then obtain d where res: "get_valid_domain ext (domain self) = Inr d"
    and cb: "check_basic d var v = Inr True"
    by (auto simp add: check_basic_value_def split: sum.splits if_splits)
  from cb obtain b where decl: "map_of d var = Some (BasicVar b)"
    by (auto simp add: check_basic_def split: option.splits VarDef.splits)
  have t: "check_item_type BASIC (basic_type b)" by (cases b) simp_all
  show ?thesis using ok res decl t
    by (simp add: set_basic_def checked_def get_basic_value_def basic_variable_def
        get_variable_type_def is_assigned_variable_def update_conv')
qed

lemma check_basic_vector_value_decl:
  assumes "check_basic_vector_value var v ext i = Inr d"
  shows "get_valid_domain ext i = Inr d
    \<and> (\<exists>mn mx st b. map_of d var = Some (VectorVar mn mx st (Some (BasicComponent b))))"
  using assms
  by (auto simp add: check_basic_vector_value_def check_vector_basic_value_def
        split: sum.splits option.splits VarDef.splits ComponentDef.splits if_splits)

lemma basic_vector_variable_accepts:
  assumes "get_valid_domain ext i = Inr d"
    and "map_of d var = Some (VectorVar mn mx st (Some (BasicComponent b)))"
  shows "basic_vector_variable var ext i = Inr d"
  using assms
  by (cases b)
     (simp_all add: basic_vector_variable_def check_component_type_def
        get_vector_components_type_def)

lemma get_component_after_write:
  assumes "get_valid_domain ext (domain self) = Inr d"
    and "map_of d var = Some (VectorVar mn mx st (Some (BasicComponent b)))"
    and "0 \<le> i" and "i < int (length ys)" and "ys ! nat i = c"
  shows "get_basic_component_value
           (self\<lparr>variables := AList.update var (Vec ys) (variables self)\<rparr>) var i ext = Inr c"
  using assms basic_vector_variable_accepts [OF assms(1,2)]
  by (simp add: get_basic_component_value_def is_assigned_component_def update_conv'
        py_index_nonneg)

lemma add_basic_component_round_trip:
  assumes "fst (add_basic_component self var v ext) = Inr r"
  shows "get_basic_component_value (snd (add_basic_component self var v ext)) var
           (int (get_vector_length (snd (add_basic_component self var v ext)) var) - 1) ext
         = Inr (Bas v)"
proof -
  from assms obtain d where ok: "check_basic_vector_value var v ext (domain self) = Inr d"
    by (auto simp add: add_basic_component_def put_basic_def checked_def
          split: prod.splits sum.splits)
  from check_basic_vector_value_decl [OF ok] obtain mn mx st b
    where res: "get_valid_domain ext (domain self) = Inr d"
      and decl: "map_of d var = Some (VectorVar mn mx st (Some (BasicComponent b)))"
    by blast
  show ?thesis
  proof (cases "map_of (variables self) var")
    case None
    then have eq: "snd (add_basic_component self var v ext) =
        self\<lparr>variables := AList.update var (Vec [Bas v]) (variables self)\<rparr>"
      using ok by (simp add: add_basic_component_def put_basic_def checked_def)
    show ?thesis
      unfolding eq
      using get_component_after_write [OF res decl, of 0 "[Bas v]" "Bas v" ]
      by (simp add: get_vector_length_def update_conv')
  next
    case (Some x)
    from assms ok Some obtain xs where x: "x = Vec xs"
      by (cases x)
         (auto simp add: add_basic_component_def put_basic_def checked_def
            split: prod.splits sum.splits)
    from assms ok Some x have eq: "snd (add_basic_component self var v ext) =
        self\<lparr>variables := AList.update var (Vec (xs @ [Bas v])) (variables self)\<rparr>"
      by (auto simp add: add_basic_component_def put_basic_def checked_def
            split: prod.splits sum.splits)
    show ?thesis
      unfolding eq
      using get_component_after_write [OF res decl, of "int (length xs)" "xs @ [Bas v]" "Bas v"]
      by (simp add: get_vector_length_def update_conv')
  qed
qed

lemma list_insert_nth:
  "list_insert xs i c ! nat (insert_position (length xs) i) = c"
  "0 \<le> insert_position (length xs) i"
  "insert_position (length xs) i < int (length (list_insert xs i c))"
proof -
  let ?j = "insert_position (length xs) i"
  have b: "0 \<le> ?j \<and> ?j \<le> int (length xs)" by (simp add: insert_position_def)
  then have le: "nat ?j \<le> length xs" by linarith
  then have l: "length (take (nat ?j) xs) = nat ?j" by simp
  have e: "list_insert xs i c = take (nat ?j) xs @ c # drop (nat ?j) xs"
    by (simp add: list_insert_def Let_def)
  show "list_insert xs i c ! nat ?j = c"
    unfolding e using l by (metis nth_append_length)
  show "0 \<le> ?j" using b by simp
  have "length (take (nat ?j) xs @ c # drop (nat ?j) xs) = Suc (length xs)"
    using le by (simp add: min_absorb2)
  then show "?j < int (length (list_insert xs i c))" unfolding e using b by linarith
qed

lemma insert_basic_component_round_trip:
  assumes "fst (insert_basic_component self var i v ext) = Inr r"
  shows "get_basic_component_value (snd (insert_basic_component self var i v ext)) var
           (case map_of (variables self) var of
              None \<Rightarrow> 0
            | Some x \<Rightarrow> insert_position (get_vector_length self var) i) ext
         = Inr (Bas v)"
proof -
  from assms obtain d where ok: "check_basic_vector_value var v ext (domain self) = Inr d"
    by (auto simp add: insert_basic_component_def put_basic_def checked_def
          split: prod.splits sum.splits)
  from check_basic_vector_value_decl [OF ok] obtain mn mx st b
    where res: "get_valid_domain ext (domain self) = Inr d"
      and decl: "map_of d var = Some (VectorVar mn mx st (Some (BasicComponent b)))"
    by blast
  show ?thesis
  proof (cases "map_of (variables self) var")
    case None
    then have eq: "snd (insert_basic_component self var i v ext) =
        self\<lparr>variables := AList.update var (Vec [Bas v]) (variables self)\<rparr>"
      using ok by (simp add: insert_basic_component_def put_basic_def checked_def)
    show ?thesis
      unfolding eq
      using get_component_after_write [OF res decl, of 0 "[Bas v]" "Bas v"] None
      by simp
  next
    case (Some x)
    from assms ok Some obtain xs where x: "x = Vec xs"
      by (cases x)
         (auto simp add: insert_basic_component_def put_basic_def checked_def
            split: prod.splits sum.splits)
    from assms ok Some x have eq: "snd (insert_basic_component self var i v ext) =
        self\<lparr>variables := AList.update var (Vec (list_insert xs i (Bas v))) (variables self)\<rparr>"
      by (auto simp add: insert_basic_component_def put_basic_def checked_def
            split: prod.splits sum.splits)
    have len: "get_vector_length self var = length xs"
      using Some x by (simp add: get_vector_length_def)
    show ?thesis
      unfolding eq
      using get_component_after_write [OF res decl list_insert_nth(2) list_insert_nth(3)
          list_insert_nth(1), of xs i "Bas v"] Some len
      by simp
  qed
qed

lemma set_basic_component_round_trip:
  assumes "fst (set_basic_component self var index v ext) = Inr ()"
  shows "get_basic_component_value (snd (set_basic_component self var index v ext)) var
           (case map_of (variables self) var of None \<Rightarrow> 0 | Some x \<Rightarrow> index) ext
         = Inr (Bas v)"
proof -
  from assms obtain d where ok: "check_basic_vector_value var v ext (domain self) = Inr d"
    by (auto simp add: set_basic_component_def checked_def split: sum.splits)
  from check_basic_vector_value_decl [OF ok] obtain mn mx st b
    where res: "get_valid_domain ext (domain self) = Inr d"
      and decl: "map_of d var = Some (VectorVar mn mx st (Some (BasicComponent b)))"
    by blast
  show ?thesis
  proof (cases "map_of (variables self) var")
    case None
    then have eq: "snd (set_basic_component self var index v ext) =
        self\<lparr>variables := AList.update var (Vec [Bas v]) (variables self)\<rparr>"
      using ok by (simp add: set_basic_component_def checked_def)
    show ?thesis
      unfolding eq
      using get_component_after_write [OF res decl, of 0 "[Bas v]" "Bas v"] None
      by simp
  next
    case (Some x)
    from assms ok Some obtain xs where x: "x = Vec xs"
      by (cases x)
         (auto simp add: set_basic_component_def checked_def split: sum.splits)
    from assms ok Some x have rng: "0 \<le> index \<and> index < int (length xs)"
      by (auto simp add: set_basic_component_def checked_def is_assigned_component_def
            split: sum.splits if_splits)
    from assms ok Some x rng have eq: "snd (set_basic_component self var index v ext) =
        self\<lparr>variables := AList.update var (Vec (xs[nat index := Bas v])) (variables self)\<rparr>"
      by (auto simp add: set_basic_component_def checked_def is_assigned_component_def
            py_index_nonneg split: sum.splits)
    have lt: "nat index < length xs" using rng by linarith
    show ?thesis
      unfolding eq
      using get_component_after_write [OF res decl, of index "xs[nat index := Bas v]" "Bas v"]
        rng Some lt
      by simp
  qed
qed

text \<open>
  Claim C8, as amended, for scalars and the components of scalar vectors. When \<open>set_basic\<close>
  returns, \<open>get_basic_value\<close> returns the value written. When \<open>add_basic_component\<close>
  returns, \<open>get_basic_component_value\<close> returns the value at the last index. When
  \<open>insert_basic_component\<close> returns, the value is read at the position \<open>list.insert\<close> gave
  it, and at index 0 if the call created the vector. When \<open>set_basic_component\<close> returns,
  the value is read at the index of the call if the vector had a value before, and at
  index 0 if the call created the vector.
\<close>

theorem C8_round_trip:
  "(fst (set_basic self var v ext) = Inr () \<longrightarrow>
      get_basic_value (snd (set_basic self var v ext)) var ext = Inr (Some (Item (Bas v))))
   \<and> (fst (add_basic_component self var v ext) = Inr r \<longrightarrow>
      get_basic_component_value (snd (add_basic_component self var v ext)) var
        (int (get_vector_length (snd (add_basic_component self var v ext)) var) - 1) ext
      = Inr (Bas v))
   \<and> (fst (insert_basic_component self var i v ext) = Inr r' \<longrightarrow>
      get_basic_component_value (snd (insert_basic_component self var i v ext)) var
        (case map_of (variables self) var of
           None \<Rightarrow> 0
         | Some x \<Rightarrow> insert_position (get_vector_length self var) i) ext
      = Inr (Bas v))
   \<and> (fst (set_basic_component self var i v ext) = Inr () \<longrightarrow>
      get_basic_component_value (snd (set_basic_component self var i v ext)) var
        (case map_of (variables self) var of None \<Rightarrow> 0 | Some x \<Rightarrow> i) ext
      = Inr (Bas v))"
  using set_basic_round_trip [of self var v ext]
    add_basic_component_round_trip [of self var v ext r]
    insert_basic_component_round_trip [of self var i v ext r']
    set_basic_component_round_trip [of self var i v ext]
  by blast

text \<open>
  A run of C8: \<open>I = 50\<close> is read back; 7 appended to \<open>V = [1]\<close> is read back at index 1;
  5 set at index 0 of \<open>V = [1]\<close> is read back at index 0.
\<close>

theorem C8_round_trip_witness:
  "get_basic_value (snd (set_basic test_solution ''I'' (IntV 50) None)) ''I'' None
     = Inr (Some (Item (Bas (IntV 50))))
   \<and> get_basic_component_value
       (snd (add_basic_component (with_variables [(''V'', Vec [Bas (IntV 1)])]) ''V''
               (IntV 7) None)) ''V'' 1 None
     = Inr (Bas (IntV 7))
   \<and> get_basic_component_value
       (snd (set_basic_component (with_variables [(''V'', Vec [Bas (IntV 1)])]) ''V'' 0
               (IntV 5) None)) ''V'' 0 None
     = Inr (Bas (IntV 5))"
proof -
  let ?s = "with_variables [(''V'', Vec [Bas (IntV 1)])]"
  have a: "fst (set_basic test_solution ''I'' (IntV 50) None) = Inr ()"
    by (simp add: set_basic_def run_defs)
  have b: "add_basic_component ?s ''V'' (IntV 7) None
      = (Inr 0, with_variables [(''V'', Vec [Bas (IntV 1), Bas (IntV 7)])])"
    by (simp add: add_basic_component_def put_basic_def run_defs)
  have c: "fst (set_basic_component ?s ''V'' 0 (IntV 5) None) = Inr ()"
    by (simp add: set_basic_component_def run_defs)
  have assigned: "map_of (variables ?s) ''V'' = Some (Vec [Bas (IntV 1)])"
    by (simp add: fixture_defs)
  have len: "get_vector_length (with_variables [(''V'', Vec [Bas (IntV 1), Bas (IntV 7)])]) ''V''
      = 2"
    by (simp add: fixture_defs get_vector_length_def)
  show ?thesis
    using C8_round_trip [of test_solution "''I''" "IntV 50" None]
      C8_round_trip [of ?s "''V''" "IntV 7" None 0]
      C8_round_trip [of ?s "''V''" "IntV 5" None _ 0]
      a b c assigned len
    by simp
qed

text \<open>
  Claim C8 as stated fails twice. \<open>set_basic_component\<close> at index 1 of a vector without a
  value is accepted and stores the value at position 0, so that reading index 1 raises a
  solution error. \<open>set_element\<close> is accepted, and \<open>get_element_value\<close> then raises, as it
  always does, because it hands the store to the control function in place of the element.
\<close>

theorem C8_round_trip_counterexample:
  "fst (set_basic_component test_solution ''V'' 1 (IntV 5) None) = Inr ()
   \<and> get_basic_component_value (snd (set_basic_component test_solution ''V'' 1 (IntV 5) None))
        ''V'' 1 None = Inl SolutionError
   \<and> fst (set_element test_solution ''L'' ''E'' (IntV 5) None) = Inr ()
   \<and> get_element_value (snd (set_element test_solution ''L'' ''E'' (IntV 5) None))
        ''L'' ''E'' None = Inl TypeError"
  by (simp add: set_basic_component_def get_basic_component_value_def set_element_def
        get_element_value_def run_defs)

section \<open>The mutations that validate before writing\<close>

text \<open>
  The failure of claim C4 is confined to the element-level append and to the creation of a
  layer vector by \<open>__put_layer\<close>: each of the other mutations leaves the solution as it was
  whenever it raises.
\<close>

lemma set_basic_atomic:
  "fst (set_basic self var v ext) = Inl e \<Longrightarrow> snd (set_basic self var v ext) = self"
  by (auto simp add: set_basic_def checked_def split: sum.splits)

lemma set_element_atomic:
  "fst (set_element self var el v ext) = Inl e \<Longrightarrow> snd (set_element self var el v ext) = self"
  by (auto simp add: set_element_def checked_def
        split: sum.splits option.splits VarValue.splits Component.splits)

lemma put_basic_atomic:
  "fst (put_basic vars var v ext i index) = Inl e
     \<Longrightarrow> snd (put_basic vars var v ext i index) = vars"
proof (cases "check_basic_vector_value var v ext i")
  case (Inl a)
  then show ?thesis by (simp add: put_basic_def checked_def)
next
  case (Inr d)
  assume err: "fst (put_basic vars var v ext i index) = Inl e"
  from check_basic_vector_value_decl [OF Inr] obtain mn mx st b
    where decl: "map_of d var = Some (VectorVar mn mx st (Some (BasicComponent b)))" by blast
  show ?thesis using err Inr decl
    by (auto simp add: put_basic_def checked_def get_remaining_available_complete_components_def
          split: option.splits sum.splits)
qed

lemma add_basic_component_atomic:
  "fst (add_basic_component self var v ext) = Inl e
     \<Longrightarrow> snd (add_basic_component self var v ext) = self"
  using put_basic_atomic [of "variables self" var v ext "domain self" None e]
  by (auto simp add: add_basic_component_def split: prod.splits)

lemma insert_basic_component_atomic:
  "fst (insert_basic_component self var i v ext) = Inl e
     \<Longrightarrow> snd (insert_basic_component self var i v ext) = self"
  using put_basic_atomic [of "variables self" var v ext "domain self" "Some i" e]
  by (auto simp add: insert_basic_component_def split: prod.splits)

lemma set_basic_component_atomic:
  "fst (set_basic_component self var i v ext) = Inl e
     \<Longrightarrow> snd (set_basic_component self var i v ext) = self"
  by (auto simp add: set_basic_component_def checked_def split: sum.splits option.splits)

lemma set_layer_component_atomic:
  "fst (set_layer_component self var i l ext) = Inl e
     \<Longrightarrow> snd (set_layer_component self var i l ext) = self"
  by (auto simp add: set_layer_component_def checked_def split: sum.splits option.splits)

lemma set_element_of_layer_component_atomic:
  "fst (set_element_of_layer_component self var i el v ext) = Inl e
     \<Longrightarrow> snd (set_element_of_layer_component self var i el v ext) = self"
  by (auto simp add: set_element_of_layer_component_def checked_def
        split: sum.splits option.splits)

lemma remove_component_atomic:
  "fst (remove_component self var ext) = Inl e \<Longrightarrow> snd (remove_component self var ext) = self"
  by (auto simp add: remove_component_def checked_def split: sum.splits option.splits)

lemma delete_component_atomic:
  "fst (delete_component self var i ext) = Inl e
     \<Longrightarrow> snd (delete_component self var i ext) = self"
  by (auto simp add: delete_component_def checked_def split: sum.splits option.splits)

text \<open>
  \<open>__put_layer\<close> validates the layer it is given element by element, so an empty layer
  passes for any name. For a name the domain does not declare, the vector is created and
  the capacity query that follows raises the definition error of the modelled \<open>Domain\<close>.
\<close>

lemma add_layer_component_writes_then_raises:
  "add_layer_component test_solution ''Q'' [] None
     = (Inl DefinitionError, with_variables [(''Q'', Vec [Lay []])])"
  by (simp add: add_layer_component_def put_layer_def run_defs)

end
